theory Spec2Isabelle
  imports Main
begin

section \<open>api/client.ts: symbol path segments\<close>

text \<open>
  \<^verbatim>\<open>const formatSymbol = (symbol: string) => symbol.replace('/', '-');\<close>

  \<open>String.prototype.replace\<close> with a string pattern rewrites the first occurrence of
  the pattern only. Pattern and replacement are single characters here.
\<close>

fun replace_first :: "char \<Rightarrow> char \<Rightarrow> string \<Rightarrow> string" where
  "replace_first a b [] = []"
| "replace_first a b (c # cs) = (if c = a then b # cs else c # replace_first a b cs)"

definition formatSymbol :: "string \<Rightarrow> string" where
  "formatSymbol symbol = replace_first (CHR ''/'') (CHR ''-'') symbol"

text \<open>
  Modelled from the spec: the reverse transform for display and lookup, "replacing
  \<open>-\<close> back with \<open>/\<close>", which is not among the sources (only the forward direction
  is). It is read as the same \<open>replace\<close> primitive with pattern and replacement
  exchanged.
\<close>

definition unformatSymbol :: "string \<Rightarrow> string" where
  "unformatSymbol segment = replace_first (CHR ''-'') (CHR ''/'') segment"

text \<open>
  Modelled from the spec: the same reverse transform in its other reading, every \<open>-\<close>
  replaced by \<open>/\<close>.
\<close>

definition unformatSymbolAll :: "string \<Rightarrow> string" where
  "unformatSymbolAll segment = map (\<lambda>c. if c = CHR ''-'' then CHR ''/'' else c) segment"

text \<open>The part of a symbol in front of its first slash.\<close>

definition baseOf :: "string \<Rightarrow> string" where
  "baseOf symbol = takeWhile (\<lambda>c. c \<noteq> CHR ''/'') symbol"

section \<open>api/client.ts: the push channel client (class TickerWebSocket)\<close>

subsection \<open>JavaScript values and message payloads\<close>

text \<open>
  What \<open>JSON.parse\<close> returns, together with \<open>undefined\<close>, the value of a property
  that an object does not have. An object is the list of its own properties.
\<close>

datatype jsval =
    JUndefined
  | JNull
  | JBool bool
  | JNum int
  | JStr string
  | JArr "jsval list"
  | JObj "(string \<times> jsval) list"

datatype exn = SyntaxError | TypeError

text \<open>
  Property access \<open>v.k\<close>, used for the keys \<open>type\<close> and \<open>data\<close>: reading a property of
  \<open>null\<close> or \<open>undefined\<close> throws a TypeError, an object yields the property's value or
  \<open>undefined\<close>, and every other value has no such property.
\<close>

fun getProp :: "jsval \<Rightarrow> string \<Rightarrow> exn + jsval" where
  "getProp JUndefined k = Inl TypeError"
| "getProp JNull k = Inl TypeError"
| "getProp (JObj fs) k = Inr (case map_of fs k of None \<Rightarrow> JUndefined | Some v \<Rightarrow> v)"
| "getProp v k = Inr JUndefined"

subsection \<open>The client and its sockets\<close>

text \<open>The \<open>readyState\<close> of a browser WebSocket.\<close>

datatype readyState = CONNECTING | OPEN | CLOSING | CLOSED

text \<open>
  What the client does to the outside, in order: sockets it creates, timeouts it
  schedules, calls of the two callbacks handed to the constructor, and exceptions that
  leave an event handler uncaught.
\<close>

datatype effect =
    NewWebSocket string
  | SetTimeout nat
  | OnMessage jsval
  | OnError
  | Uncaught exn

text \<open>
  The fields of the class (\<open>ws\<close>, \<open>symbol\<close>, \<open>reconnectAttempts\<close>) and the
  surroundings its methods act on: \<open>window.location.host\<close>, the sockets created so far
  (\<open>ws\<close> refers to one by its position), the number of pending
  \<open>setTimeout(() => this.connect(), 3000)\<close> callbacks, and the effects so far.
  Every socket carries the three handlers that \<open>connect\<close> installs; they close over
  \<open>this\<close>, so they are the same for every socket, and \<open>disconnect\<close> does not remove them.
\<close>

record TickerWebSocket =
  ws :: "nat option"
  symbol :: string
  reconnectAttempts :: nat
  host :: string
  sockets :: "readyState list"
  timers :: nat
  effects :: "effect list"

text \<open>\<^verbatim>\<open>private maxReconnectAttempts = 5;\<close> The field is never assigned again.\<close>

definition maxReconnectAttempts :: nat where
  "maxReconnectAttempts = 5"

text \<open>The constructor (the two callbacks are seen through \<open>OnMessage\<close> and \<open>OnError\<close>).\<close>

definition newTickerWebSocket :: "string \<Rightarrow> string \<Rightarrow> TickerWebSocket" where
  "newTickerWebSocket h sy =
     \<lparr>ws = None, symbol = sy, reconnectAttempts = 0, host = h,
      sockets = [], timers = 0, effects = []\<rparr>"

definition wsUrl :: "TickerWebSocket \<Rightarrow> string" where
  "wsUrl s = ''ws://'' @ host s @ ''/ws/ticker/'' @ replace_first (CHR ''/'') (CHR ''-'') (symbol s)"

text \<open>\<open>connect()\<close>: a new socket, stored in \<open>this.ws\<close>, with the three handlers.\<close>

definition connect :: "TickerWebSocket \<Rightarrow> TickerWebSocket" where
  "connect s =
     s\<lparr>ws := Some (length (sockets s)),
       sockets := sockets s @ [CONNECTING],
       effects := effects s @ [NewWebSocket (wsUrl s)]\<rparr>"

text \<open>
  The \<open>onmessage\<close> handler. Its argument is the outcome of \<open>JSON.parse(event.data)\<close>:
  \<open>None\<close> when the payload is not parseable and \<open>JSON.parse\<close> throws.
  \<^verbatim>\<open>
  const data = JSON.parse(event.data);
  if (data.type === 'ticker') { this.onMessage(data.data); }
  \<close>
  Nothing in the handler catches an exception: \<open>Inl\<close> is the exception leaving it.
\<close>

definition onmessage :: "jsval option \<Rightarrow> TickerWebSocket \<Rightarrow> exn + TickerWebSocket" where
  "onmessage parsed s =
     (case parsed of
        None \<Rightarrow> Inl SyntaxError
      | Some data \<Rightarrow>
          (case getProp data ''type'' of
             Inl e \<Rightarrow> Inl e
           | Inr t \<Rightarrow>
               if t = JStr ''ticker''
               then (case getProp data ''data'' of
                       Inl e \<Rightarrow> Inl e
                     | Inr d \<Rightarrow> Inr (s\<lparr>effects := effects s @ [OnMessage d]\<rparr>))
               else Inr s))"

text \<open>The \<open>onerror\<close> handler: \<open>this.onError(error)\<close>.\<close>

definition onerror :: "TickerWebSocket \<Rightarrow> TickerWebSocket" where
  "onerror s = s\<lparr>effects := effects s @ [OnError]\<rparr>"

text \<open>
  The \<open>onclose\<close> handler.
  \<^verbatim>\<open>
  if (this.reconnectAttempts < this.maxReconnectAttempts) {
    this.reconnectAttempts++;
    setTimeout(() => this.connect(), 3000);
  }
  \<close>
\<close>

definition onclose :: "TickerWebSocket \<Rightarrow> TickerWebSocket" where
  "onclose s =
     (if reconnectAttempts s < maxReconnectAttempts
      then s\<lparr>reconnectAttempts := reconnectAttempts s + 1,
             timers := timers s + 1,
             effects := effects s @ [SetTimeout 3000]\<rparr>
      else s)"

text \<open>\<open>WebSocket.close()\<close>: starts the closing handshake unless it has started already.\<close>

definition socketClose :: "readyState \<Rightarrow> readyState" where
  "socketClose st = (if st = CONNECTING \<or> st = OPEN then CLOSING else st)"

text \<open>
  \<open>disconnect()\<close>:
  \<^verbatim>\<open>
  if (this.ws) { this.ws.close(); this.ws = null; }
  \<close>
\<close>

definition disconnect :: "TickerWebSocket \<Rightarrow> TickerWebSocket" where
  "disconnect s =
     (case ws s of
        None \<Rightarrow> s
      | Some i \<Rightarrow> s\<lparr>sockets := (sockets s)[i := socketClose (sockets s ! i)], ws := None\<rparr>)"

subsection \<open>The event loop around the client\<close>

text \<open>
  The two method calls of the owner, the events the browser delivers for a socket, and a
  pending timeout firing. The browser delivers \<open>open\<close> to a connecting socket, messages to
  a socket that is open or closing, and \<open>error\<close> and \<open>close\<close> to a socket that is not
  closed yet; \<open>close\<close> is delivered whoever closed the socket, so also after
  \<open>WebSocket.close()\<close>. An event that cannot occur leaves the state as it is.
\<close>

datatype event =
    CallConnect
  | CallDisconnect
  | SockOpen nat
  | SockMessage nat "jsval option"
  | SockError nat
  | SockClose nat
  | TimerFire

fun wsStep :: "event \<Rightarrow> TickerWebSocket \<Rightarrow> TickerWebSocket" where
  "wsStep CallConnect s = connect s"
| "wsStep CallDisconnect s = disconnect s"
| "wsStep (SockOpen i) s =
     (if i < length (sockets s) \<and> sockets s ! i = CONNECTING
      then s\<lparr>sockets := (sockets s)[i := OPEN]\<rparr> else s)"
| "wsStep (SockMessage i parsed) s =
     (if i < length (sockets s) \<and> (sockets s ! i = OPEN \<or> sockets s ! i = CLOSING)
      then (case onmessage parsed s of
              Inl e \<Rightarrow> s\<lparr>effects := effects s @ [Uncaught e]\<rparr>
            | Inr s' \<Rightarrow> s')
      else s)"
| "wsStep (SockError i) s =
     (if i < length (sockets s) \<and> sockets s ! i \<noteq> CLOSED then onerror s else s)"
| "wsStep (SockClose i) s =
     (if i < length (sockets s) \<and> sockets s ! i \<noteq> CLOSED
      then onclose (s\<lparr>sockets := (sockets s)[i := CLOSED]\<rparr>) else s)"
| "wsStep TimerFire s =
     (if 0 < timers s then connect (s\<lparr>timers := timers s - 1\<rparr>) else s)"

primrec wsRun :: "event list \<Rightarrow> TickerWebSocket \<Rightarrow> TickerWebSocket" where
  "wsRun [] s = s"
| "wsRun (e # es) s = wsRun es (wsStep e s)"

text \<open>The events that are not calls of the owner.\<close>

fun automatic :: "event \<Rightarrow> bool" where
  "automatic CallConnect = False"
| "automatic CallDisconnect = False"
| "automatic e = True"

text \<open>
  A run of consecutive failures: each socket, numbered from \<open>i\<close>, fails either with an
  error followed by its close or with a close alone, and the timeout scheduled by the
  close handler (if any) fires before the next failure.
\<close>

datatype failure = ErrorThenClose | UnexpectedClose

fun failures :: "nat \<Rightarrow> failure list \<Rightarrow> event list" where
  "failures i [] = []"
| "failures i (ErrorThenClose # fs) = [SockError i, SockClose i, TimerFire] @ failures (Suc i) fs"
| "failures i (UnexpectedClose # fs) = [SockClose i, TimerFire] @ failures (Suc i) fs"

text \<open>
  Closed-Permanent: the retry budget is used up, no timeout is pending and no socket is
  left that could deliver an event.
\<close>

definition closedPermanent :: "TickerWebSocket \<Rightarrow> bool" where
  "closedPermanent s \<longleftrightarrow>
     maxReconnectAttempts \<le> reconnectAttempts s \<and> timers s = 0
     \<and> list_all (\<lambda>st. st = CLOSED) (sockets s)"

fun isSetTimeout :: "effect \<Rightarrow> bool" where
  "isSetTimeout (SetTimeout d) = True"
| "isSetTimeout e = False"

fun isNewWebSocket :: "effect \<Rightarrow> bool" where
  "isNewWebSocket (NewWebSocket u) = True"
| "isNewWebSocket e = False"

text \<open>The number of sockets the client has created.\<close>

definition created :: "TickerWebSocket \<Rightarrow> nat" where
  "created s = length (filter isNewWebSocket (effects s))"

text \<open>
  The shape of the client after a run of \<open>k\<close> failures that started from a fresh,
  connected client: the invariant behind the retry budget.
\<close>

definition afterFailures :: "nat \<Rightarrow> TickerWebSocket \<Rightarrow> bool" where
  "afterFailures k s \<longleftrightarrow>
     reconnectAttempts s = min k 5 \<and> timers s = 0
     \<and> filter isSetTimeout (effects s) = replicate (min k 5) (SetTimeout 3000)
     \<and> created s = 1 + min k 5
     \<and> ws s = Some (min k 5)
     \<and> sockets s = replicate (min k 6) CLOSED @ (if k \<le> 5 then [CONNECTING] else [])"

text \<open>A client for \<open>BTC/USDT\<close> whose first socket has opened.\<close>

definition openClient :: TickerWebSocket where
  "openClient = wsRun [CallConnect, SockOpen 0] (newTickerWebSocket ''localhost'' ''BTC/USDT'')"

text \<open>A client for \<open>BTC/USDT\<close> on which six sockets in a row have failed.\<close>

definition exhaustedClient :: TickerWebSocket where
  "exhaustedClient =
     wsRun (failures 0 (replicate 6 UnexpectedClose))
       (connect (newTickerWebSocket ''localhost'' ''BTC/USDT''))"

section \<open>App.tsx: view model state, fetchData and the periodic ticker refresh\<close>

subsection \<open>Requests and their outcomes\<close>

text \<open>
  The requests of \<open>marketApi\<close> and \<open>analysisApi\<close> that \<open>App\<close> issues: the path
  segment built by \<open>formatSymbol\<close> and the query parameters, defaults filled in.
\<close>

datatype request =
    GetSymbols string
  | GetTicker string string
  | GetOHLCV string string string nat
  | GetFullAnalysis string string

definition getSymbols :: "string \<Rightarrow> request" where
  "getSymbols exchange = GetSymbols exchange"

definition getTicker :: "string \<Rightarrow> request" where
  "getTicker sy = GetTicker (formatSymbol sy) ''binance''"

definition getOHLCV :: "string \<Rightarrow> string \<Rightarrow> request" where
  "getOHLCV sy timeframe = GetOHLCV (formatSymbol sy) timeframe ''binance'' 500"

definition getFullAnalysis :: "string \<Rightarrow> request" where
  "getFullAnalysis sy = GetFullAnalysis (formatSymbol sy) ''binance''"

text \<open>
  What a \<open>catch\<close> clause receives when a request fails: an error object with its own
  \<open>message\<close> (possibly none) and, when the server answered, the response's status and
  body.
\<close>

record caught =
  message :: "string option"
  response :: "(nat \<times> jsval) option"

text \<open>How an awaited request settles.\<close>

datatype 'a outcome = Fulfilled 'a | Rejected caught

text \<open>
  The error with which the HTTP client (axios, created in \<open>api/client.ts\<close> with a base
  URL and a timeout and no interceptor) rejects a response whose status is not 2xx: its
  message names the status code, and the body is kept under \<open>response\<close>.
\<close>

fun decimal :: "nat \<Rightarrow> string" where
  "decimal n = (if n < 10 then [''0123456789'' ! n]
                else decimal (n div 10) @ [''0123456789'' ! (n mod 10)])"

declare decimal.simps [simp del]

definition requestFailed :: "nat \<Rightarrow> jsval \<Rightarrow> caught" where
  "requestFailed status body =
     \<lparr>message = Some (''Request failed with status code '' @ decimal status),
      response = Some (status, body)\<rparr>"

subsection \<open>State\<close>

text \<open>\<^verbatim>\<open>useState({ symbols: false, ticker: false, chart: false, analysis: false })\<close>\<close>

record LoadingState =
  l_symbols :: bool
  l_ticker :: bool
  l_chart :: bool
  l_analysis :: bool

text \<open>
  A run of \<open>fetchData\<close>: the \<open>selectedSymbol\<close> and \<open>chartTimeframe\<close> its closure
  captured, and the \<open>await\<close> at which it is suspended.
\<close>

datatype awaiting = AwaitTicker | AwaitOHLCV | AwaitAnalysis | Finished

record fetchTask =
  taskSymbol :: string
  taskTimeframe :: string
  taskAt :: awaiting

text \<open>An active \<open>setInterval\<close>: its id, its period and the symbol its callback captured.\<close>

record interval =
  ivId :: nat
  ivPeriod :: nat
  ivSymbol :: string

text \<open>A ticker request of the periodic refresh: the symbol asked for, and whether it is
  still awaited.\<close>

record poll =
  pollSymbol :: string
  pollPending :: bool

text \<open>
  The \<open>useState\<close> cells of \<open>App\<close> (from \<open>symbols\<close> to \<open>lastUpdate\<close>; \<open>null\<close> is
  \<open>None\<close>, a \<open>Date\<close> is a number) and what surrounds them: whether the component is
  mounted, the requests issued so far, whether \<open>fetchSymbols\<close> is awaited, the runs of
  \<open>fetchData\<close>, the active intervals, the next interval id, the id that the cleanup of
  the refresh effect will clear, and the requests of the periodic refresh.
\<close>

record App =
  mounted :: bool
  symbols :: "string list"
  selectedSymbol :: string
  chartTimeframe :: string
  ticker :: "jsval option"
  ohlcv :: jsval
  analysis :: "jsval option"
  loading :: LoadingState
  error :: "string option"
  lastUpdate :: "nat option"
  requests :: "request list"
  symbolsPending :: bool
  tasks :: "fetchTask list"
  intervals :: "interval list"
  nextInterval :: nat
  effectInterval :: "nat option"
  polls :: "poll list"

definition initialApp :: App where
  "initialApp =
     \<lparr>mounted = False, symbols = [], selectedSymbol = ''BTC/USDT'', chartTimeframe = ''1h'',
      ticker = None, ohlcv = JArr [], analysis = None,
      loading = \<lparr>l_symbols = False, l_ticker = False, l_chart = False, l_analysis = False\<rparr>,
      error = None, lastUpdate = None,
      requests = [], symbolsPending = False, tasks = [], intervals = [], nextInterval = 0,
      effectInterval = None, polls = []\<rparr>"

subsection \<open>fetchSymbols\<close>

text \<open>
  \<^verbatim>\<open>
  setLoading(l => ({ ...l, symbols: true }));
  try { const data = await marketApi.getSymbols('binance'); setSymbols(data); }
  catch (err) { console.error(...); }
  finally { setLoading(l => ({ ...l, symbols: false })); }
  \<close>
\<close>

definition fetchSymbols :: "App \<Rightarrow> App" where
  "fetchSymbols s =
     s\<lparr>loading := (loading s)\<lparr>l_symbols := True\<rparr>,
       requests := requests s @ [getSymbols ''binance''],
       symbolsPending := True\<rparr>"

definition fetchSymbolsResume :: "string list outcome \<Rightarrow> App \<Rightarrow> App" where
  "fetchSymbolsResume out s =
     (let s1 = (case out of Fulfilled d \<Rightarrow> s\<lparr>symbols := d\<rparr> | Rejected e \<Rightarrow> s)
      in s1\<lparr>loading := (loading s1)\<lparr>l_symbols := False\<rparr>, symbolsPending := False\<rparr>)"

subsection \<open>fetchData\<close>

text \<open>
  The call of \<open>fetchData\<close> up to its first \<open>await\<close>; \<open>sy\<close> and \<open>tf\<close> are the
  \<open>selectedSymbol\<close> and \<open>chartTimeframe\<close> of the render that created the callback.
  \<^verbatim>\<open>
  setError(null);
  setLoading(l => ({ ...l, ticker: true }));
  try { const tickerData = await marketApi.getTicker(selectedSymbol); ...
  \<close>
\<close>

definition fetchData :: "string \<Rightarrow> string \<Rightarrow> App \<Rightarrow> App" where
  "fetchData sy tf s =
     s\<lparr>error := None,
       loading := (loading s)\<lparr>l_ticker := True\<rparr>,
       requests := requests s @ [getTicker sy],
       tasks := tasks s @ [\<lparr>taskSymbol = sy, taskTimeframe = tf, taskAt = AwaitTicker\<rparr>]\<rparr>"

text \<open>
  From the settled ticker request to the \<open>await\<close> of the OHLCV request.
  \<^verbatim>\<open>
    ... setTicker(tickerData);
  } catch (err) { console.error('Ticker error:', err); }
  finally { setLoading(l => ({ ...l, ticker: false })); }
  setLoading(l => ({ ...l, chart: true }));
  try { const ohlcvData = await marketApi.getOHLCV(selectedSymbol, chartTimeframe); ...
  \<close>
\<close>

definition afterTicker :: "nat \<Rightarrow> jsval outcome \<Rightarrow> App \<Rightarrow> App" where
  "afterTicker i out s =
     (let t = tasks s ! i;
          s1 = (case out of Fulfilled d \<Rightarrow> s\<lparr>ticker := Some d\<rparr> | Rejected e \<Rightarrow> s);
          s2 = s1\<lparr>loading := (loading s1)\<lparr>l_ticker := False\<rparr>\<rparr>
      in s2\<lparr>loading := (loading s2)\<lparr>l_chart := True\<rparr>,
            requests := requests s2 @ [getOHLCV (taskSymbol t) (taskTimeframe t)],
            tasks := (tasks s2)[i := t\<lparr>taskAt := AwaitOHLCV\<rparr>]\<rparr>)"

text \<open>
  From the settled OHLCV request to the \<open>await\<close> of the analysis request.
  \<^verbatim>\<open>
    ... setOhlcv(ohlcvData);
  } catch (err) { console.error('OHLCV error:', err); }
  finally { setLoading(l => ({ ...l, chart: false })); }
  setLoading(l => ({ ...l, analysis: true }));
  try { const analysisData = await analysisApi.getFullAnalysis(selectedSymbol); ...
  \<close>
\<close>

definition afterOHLCV :: "nat \<Rightarrow> jsval outcome \<Rightarrow> App \<Rightarrow> App" where
  "afterOHLCV i out s =
     (let t = tasks s ! i;
          s1 = (case out of Fulfilled d \<Rightarrow> s\<lparr>ohlcv := d\<rparr> | Rejected e \<Rightarrow> s);
          s2 = s1\<lparr>loading := (loading s1)\<lparr>l_chart := False\<rparr>\<rparr>
      in s2\<lparr>loading := (loading s2)\<lparr>l_analysis := True\<rparr>,
            requests := requests s2 @ [getFullAnalysis (taskSymbol t)],
            tasks := (tasks s2)[i := t\<lparr>taskAt := AwaitAnalysis\<rparr>]\<rparr>)"

text \<open>\<^verbatim>\<open>err.message || 'Failed to fetch analysis'\<close>: an empty message is falsy.\<close>

definition errorMessage :: "caught \<Rightarrow> string" where
  "errorMessage err =
     (case message err of
        None \<Rightarrow> ''Failed to fetch analysis''
      | Some m \<Rightarrow> if m = [] then ''Failed to fetch analysis'' else m)"

text \<open>
  From the settled analysis request to the end; \<open>now\<close> is the value of \<open>new Date()\<close>.
  \<^verbatim>\<open>
    ... setAnalysis(analysisData); setLastUpdate(new Date());
  } catch (err: any) {
    console.error('Analysis error:', err);
    setError(err.message || 'Failed to fetch analysis');
  } finally { setLoading(l => ({ ...l, analysis: false })); }
  \<close>
\<close>

definition afterAnalysis :: "nat \<Rightarrow> jsval outcome \<Rightarrow> nat \<Rightarrow> App \<Rightarrow> App" where
  "afterAnalysis i out now s =
     (let t = tasks s ! i;
          s1 = (case out of
                  Fulfilled d \<Rightarrow> s\<lparr>analysis := Some d, lastUpdate := Some now\<rparr>
                | Rejected e \<Rightarrow> s\<lparr>error := Some (errorMessage e)\<rparr>)
      in s1\<lparr>loading := (loading s1)\<lparr>l_analysis := False\<rparr>,
            tasks := (tasks s1)[i := t\<lparr>taskAt := Finished\<rparr>]\<rparr>)"

text \<open>The run \<open>i\<close> of \<open>fetchData\<close> resumes when the request it awaits settles.\<close>

definition fetchDataResume :: "nat \<Rightarrow> jsval outcome \<Rightarrow> nat \<Rightarrow> App \<Rightarrow> App" where
  "fetchDataResume i out now s =
     (if i < length (tasks s)
      then (case taskAt (tasks s ! i) of
              AwaitTicker \<Rightarrow> afterTicker i out s
            | AwaitOHLCV \<Rightarrow> afterOHLCV i out s
            | AwaitAnalysis \<Rightarrow> afterAnalysis i out now s
            | Finished \<Rightarrow> s)
      else s)"

subsection \<open>The periodic ticker refresh\<close>

text \<open>
  The effect with the dependency \<open>[selectedSymbol]\<close>:
  \<^verbatim>\<open>
  const interval = setInterval(async () => {
    try { const tickerData = await marketApi.getTicker(selectedSymbol); setTicker(tickerData); }
    catch (err) { /* Silent fail for ticker refresh */ }
  }, 5000);
  return () => clearInterval(interval);
  \<close>
\<close>

definition refreshSetup :: "string \<Rightarrow> App \<Rightarrow> App" where
  "refreshSetup sy s =
     s\<lparr>intervals := intervals s @ [\<lparr>ivId = nextInterval s, ivPeriod = 5000, ivSymbol = sy\<rparr>],
       effectInterval := Some (nextInterval s),
       nextInterval := nextInterval s + 1\<rparr>"

definition clearInterval :: "nat \<Rightarrow> App \<Rightarrow> App" where
  "clearInterval k s = s\<lparr>intervals := filter (\<lambda>iv. ivId iv \<noteq> k) (intervals s)\<rparr>"

definition refreshCleanup :: "App \<Rightarrow> App" where
  "refreshCleanup s =
     (case effectInterval s of
        None \<Rightarrow> s
      | Some k \<Rightarrow> (clearInterval k s)\<lparr>effectInterval := None\<rparr>)"

text \<open>The interval's callback up to its \<open>await\<close>, and its resumption.\<close>

definition refreshTick :: "string \<Rightarrow> App \<Rightarrow> App" where
  "refreshTick sy s =
     s\<lparr>requests := requests s @ [getTicker sy],
       polls := polls s @ [\<lparr>pollSymbol = sy, pollPending = True\<rparr>]\<rparr>"

definition refreshResume :: "nat \<Rightarrow> jsval outcome \<Rightarrow> App \<Rightarrow> App" where
  "refreshResume j out s =
     (if j < length (polls s) \<and> pollPending (polls s ! j)
      then (let s1 = (case out of Fulfilled d \<Rightarrow> s\<lparr>ticker := Some d\<rparr> | Rejected e \<Rightarrow> s)
            in s1\<lparr>polls := (polls s1)[j := (polls s1 ! j)\<lparr>pollPending := False\<rparr>]\<rparr>)
      else s)"

subsection \<open>Handlers and events\<close>

text \<open>
  \<^verbatim>\<open>
  const handleSymbolChange = (symbol: string) => {
    setSelectedSymbol(symbol); setAnalysis(null); setTicker(null);
  };
  \<close>
  followed by the effects of the next render: when \<open>selectedSymbol\<close> has changed, the
  cleanup of the refresh effect, then \<open>fetchData()\<close> (the callback is a new one), then
  the refresh effect again. Selecting the symbol that is selected already changes no
  dependency.
\<close>

definition handleSymbolChange :: "string \<Rightarrow> App \<Rightarrow> App" where
  "handleSymbolChange sy s =
     (let s1 = s\<lparr>selectedSymbol := sy, analysis := None, ticker := None\<rparr>
      in if sy \<noteq> selectedSymbol s
         then refreshSetup sy (fetchData sy (chartTimeframe s1) (refreshCleanup s1))
         else s1)"

text \<open>
  \<open>handleTimeframeChange\<close>: \<open>setChartTimeframe(tf)\<close>; a changed timeframe gives a new
  \<open>fetchData\<close>, which the effect with the dependency \<open>[fetchData]\<close> calls.
\<close>

definition handleTimeframeChange :: "string \<Rightarrow> App \<Rightarrow> App" where
  "handleTimeframeChange tf s =
     (let s1 = s\<lparr>chartTimeframe := tf\<rparr>
      in if tf \<noteq> chartTimeframe s then fetchData (selectedSymbol s1) tf s1 else s1)"

text \<open>\<^verbatim>\<open>const isLoading = loading.analysis || loading.ticker;\<close>\<close>

definition isLoading :: "App \<Rightarrow> bool" where
  "isLoading s \<longleftrightarrow> l_analysis (loading s) \<or> l_ticker (loading s)"

text \<open>
  The events of the component: mounting (the three effects in the order of the source),
  the two handlers, the refresh button (\<open>onClick={fetchData}\<close>, with
  \<open>disabled={isLoading}\<close>: a click on the disabled button does nothing), the settling
  of the request that \<open>fetchSymbols\<close>, a run of \<open>fetchData\<close> or a refresh callback
  awaits, and a tick of an interval. Before mounting nothing can happen; a tick of an
  interval that has been cleared does not occur.
\<close>

datatype appEvent =
    Mount
  | SymbolChange string
  | TimeframeChange string
  | ClickRefresh
  | SettleSymbols "string list outcome"
  | SettleFetch nat "jsval outcome" nat
  | IntervalTick nat
  | SettlePoll nat "jsval outcome"

fun appStep :: "appEvent \<Rightarrow> App \<Rightarrow> App" where
  "appStep Mount s =
     (if mounted s then s
      else refreshSetup (selectedSymbol s)
             (fetchData (selectedSymbol s) (chartTimeframe s)
               (fetchSymbols (s\<lparr>mounted := True\<rparr>))))"
| "appStep (SymbolChange sy) s = (if mounted s then handleSymbolChange sy s else s)"
| "appStep (TimeframeChange tf) s = (if mounted s then handleTimeframeChange tf s else s)"
| "appStep ClickRefresh s =
     (if mounted s \<and> \<not> isLoading s
      then fetchData (selectedSymbol s) (chartTimeframe s) s else s)"
| "appStep (SettleSymbols out) s = (if symbolsPending s then fetchSymbolsResume out s else s)"
| "appStep (SettleFetch i out now) s = fetchDataResume i out now s"
| "appStep (IntervalTick k) s =
     (case find (\<lambda>iv. ivId iv = k) (intervals s) of
        None \<Rightarrow> s
      | Some iv \<Rightarrow> refreshTick (ivSymbol iv) s)"
| "appStep (SettlePoll j out) s = refreshResume j out s"

primrec appRun :: "appEvent list \<Rightarrow> App \<Rightarrow> App" where
  "appRun [] s = s"
| "appRun (e # es) s = appRun es (appStep e s)"

text \<open>
  While the component is mounted, exactly one interval is active: the one the refresh
  effect holds, with period 5000 and the selected symbol.
\<close>

definition oneInterval :: "App \<Rightarrow> bool" where
  "oneInterval s \<longleftrightarrow>
     (if mounted s
      then map ivPeriod (intervals s) = [5000]
           \<and> map ivSymbol (intervals s) = [selectedSymbol s]
           \<and> map (\<lambda>iv. Some (ivId iv)) (intervals s) = [effectInterval s]
      else intervals s = [] \<and> effectInterval s = None)"

subsection \<open>Scenarios\<close>

definition btcTicker :: jsval where
  "btcTicker = JObj [(''symbol'', JStr ''BTC/USDT''), (''last'', JNum 100)]"

text \<open>The response with status 500 and body \<open>{"message":"upstream down"}\<close>, as caught.\<close>

definition upstreamDown :: caught where
  "upstreamDown = requestFailed 500 (JObj [(''message'', JStr ''upstream down'')])"

text \<open>The component after mounting, with nothing answered yet.\<close>

definition mountedApp :: App where
  "mountedApp = appStep Mount initialApp"

text \<open>After mounting, \<open>ETH/USDT\<close> is selected while the ticker request for \<open>BTC/USDT\<close>
  is still awaited.\<close>

definition switchedApp :: App where
  "switchedApp = appStep (SymbolChange ''ETH/USDT'') mountedApp"

text \<open>After mounting, ticker and OHLCV have arrived and the analysis is awaited.\<close>

definition analysisPending :: App where
  "analysisPending =
     appRun [SettleFetch 0 (Fulfilled btcTicker) 1, SettleFetch 0 (Fulfilled (JArr [])) 2]
       mountedApp"

text \<open>The analysis has failed with status 500, the refresh button has been pressed, and
  the new run's ticker and OHLCV have arrived.\<close>

definition refreshedApp :: App where
  "refreshedApp =
     appRun [SettleFetch 0 (Rejected upstreamDown) 3, ClickRefresh,
             SettleFetch 1 (Fulfilled btcTicker) 4, SettleFetch 1 (Fulfilled (JArr [])) 5]
       analysisPending"

text \<open>After mounting, the interval has ticked once.\<close>

definition polledApp :: App where
  "polledApp = appStep (IntervalTick 0) mountedApp"

section \<open>Symbol path segments: results\<close>

lemma replace_first_absent: "a \<notin> set cs \<Longrightarrow> replace_first a b cs = cs"
  by (induction cs) auto

lemma replace_first_back:
  "b \<notin> set (takeWhile (\<lambda>c. c \<noteq> a) cs) \<Longrightarrow> replace_first b a (replace_first a b cs) = cs"
  by (induction cs) auto

lemma map_absent: "b \<notin> set cs \<Longrightarrow> map (\<lambda>c. if c = b then a else c) cs = cs"
  by (induction cs) auto

lemma replace_all_back:
  "b \<notin> set cs \<Longrightarrow> map (\<lambda>c. if c = b then a else c) (replace_first a b cs) = cs"
  by (induction cs) (auto simp: map_absent)

lemma formatSymbol_example: "formatSymbol ''BTC/USDT'' = ''BTC-USDT''"
  by (simp add: formatSymbol_def)

text \<open>
  C8 (as stated) fails: \<open>A-B/USDT\<close> has exactly one slash, its path segment is
  \<open>A-B-USDT\<close>, and replacing \<open>-\<close> back gives \<open>A/B-USDT\<close> (or \<open>A/B/USDT\<close> when
  every dash is replaced), not the symbol.
\<close>

theorem C8_roundtrip_counterexample:
  "count_list ''A-B/USDT'' (CHR ''/'') = 1
   \<and> formatSymbol ''A-B/USDT'' = ''A-B-USDT''
   \<and> unformatSymbol (formatSymbol ''A-B/USDT'') = ''A/B-USDT''
   \<and> unformatSymbol (formatSymbol ''A-B/USDT'') \<noteq> ''A-B/USDT''
   \<and> unformatSymbolAll (formatSymbol ''A-B/USDT'') \<noteq> ''A-B/USDT''"
  by (simp add: formatSymbol_def unformatSymbol_def unformatSymbolAll_def)

text \<open>
  C8 (amended): for every symbol with exactly one slash, replacing the first \<open>/\<close> by
  \<open>-\<close> and then the first \<open>-\<close> back by \<open>/\<close> yields the symbol again when the part
  before the slash has no \<open>-\<close>; replacing every \<open>-\<close> back does so when the symbol has
  no \<open>-\<close> at all.
\<close>

theorem C8_roundtrip:
  assumes "count_list sy (CHR ''/'') = 1"
  shows "(CHR ''-'' \<notin> set (baseOf sy) \<longrightarrow> unformatSymbol (formatSymbol sy) = sy)
       \<and> (CHR ''-'' \<notin> set sy \<longrightarrow> unformatSymbolAll (formatSymbol sy) = sy)"
  by (simp add: formatSymbol_def unformatSymbol_def unformatSymbolAll_def baseOf_def
        replace_first_back replace_all_back)

theorem C8_roundtrip_witness:
  "count_list ''ETH/USDT'' (CHR ''/'') = 1
   \<and> CHR ''-'' \<notin> set (baseOf ''ETH/USDT'')
   \<and> CHR ''-'' \<notin> set ''ETH/USDT''
   \<and> formatSymbol ''ETH/USDT'' = ''ETH-USDT''
   \<and> unformatSymbol (formatSymbol ''ETH/USDT'') = ''ETH/USDT''
   \<and> unformatSymbolAll (formatSymbol ''ETH/USDT'') = ''ETH/USDT''"
proof -
  have one: "count_list ''ETH/USDT'' (CHR ''/'') = 1" by simp
  have nodash: "CHR ''-'' \<notin> set (baseOf ''ETH/USDT'')" "CHR ''-'' \<notin> set ''ETH/USDT''"
    by (simp_all add: baseOf_def)
  have fmt: "formatSymbol ''ETH/USDT'' = ''ETH-USDT''" by (simp add: formatSymbol_def)
  from C8_roundtrip [OF one] nodash
  have "unformatSymbol (formatSymbol ''ETH/USDT'') = ''ETH/USDT''
      \<and> unformatSymbolAll (formatSymbol ''ETH/USDT'') = ''ETH/USDT''"
    by blast
  with one nodash fmt show ?thesis by blast
qed

section \<open>The push channel client: results\<close>

lemmas ws_defs = newTickerWebSocket_def connect_def disconnect_def onmessage_def onerror_def
  onclose_def socketClose_def wsUrl_def maxReconnectAttempts_def closedPermanent_def created_def

lemma wsRun_append: "wsRun (xs @ ys) s = wsRun ys (wsRun xs s)"
  by (induction xs arbitrary: s) auto

lemma failures_append: "failures i (xs @ ys) = failures i xs @ failures (i + length xs) ys"
  by (induction i xs rule: failures.induct) auto

lemma openClient_sockets: "sockets openClient = [OPEN]"
  by (simp add: openClient_def ws_defs)

subsection \<open>Explicit disconnect\<close>

text \<open>
  C2: \<open>disconnect()\<close> should never lead to a reconnection. In the code it does: the
  \<open>close\<close> event that follows \<open>WebSocket.close()\<close> runs the \<open>onclose\<close> handler, which
  cannot tell it from a failure, counts a retry and schedules \<open>connect()\<close>. A fresh
  client that connects, opens and is disconnected has a second socket once the timeout
  has fired; so has a client that is disconnected while its first retry is pending.
\<close>

theorem C2_disconnect_reconnects:
  "wsRun [CallConnect, SockOpen 0, CallDisconnect, SockClose 0, TimerFire]
     (newTickerWebSocket ''localhost'' ''BTC/USDT'')
   = \<lparr>ws = Some 1, symbol = ''BTC/USDT'', reconnectAttempts = 1, host = ''localhost'',
      sockets = [CLOSED, CONNECTING], timers = 0,
      effects = [NewWebSocket ''ws://localhost/ws/ticker/BTC-USDT'', SetTimeout 3000,
                 NewWebSocket ''ws://localhost/ws/ticker/BTC-USDT'']\<rparr>
   \<and> wsRun [CallConnect, SockClose 0, CallDisconnect, TimerFire]
     (newTickerWebSocket ''localhost'' ''BTC/USDT'')
   = \<lparr>ws = Some 1, symbol = ''BTC/USDT'', reconnectAttempts = 1, host = ''localhost'',
      sockets = [CLOSED, CONNECTING], timers = 0,
      effects = [NewWebSocket ''ws://localhost/ws/ticker/BTC-USDT'', SetTimeout 3000,
                 NewWebSocket ''ws://localhost/ws/ticker/BTC-USDT'']\<rparr>"
  by (simp add: ws_defs)

subsection \<open>The retry budget\<close>

lemma afterFailures_start: "afterFailures 0 (connect (newTickerWebSocket h sy))"
  by (simp add: afterFailures_def connect_def newTickerWebSocket_def created_def)

lemma failure_within_budget:
  assumes "afterFailures k s" and "k < 5"
  shows "afterFailures (Suc k) (wsRun (failures k [f]) s)"
proof -
  from assms have so: "sockets s = replicate k CLOSED @ [CONNECTING]"
    by (simp add: afterFailures_def)
  then have len: "k < length (sockets s)" and live: "sockets s ! k = CONNECTING"
    by (simp_all add: nth_append)
  have upd: "(sockets s)[k := CLOSED] = replicate (Suc k) CLOSED"
    by (simp add: so list_update_append replicate_append_same)
  from assms len live upd show ?thesis
    by (cases f)
       (simp_all add: afterFailures_def onerror_def onclose_def connect_def created_def
          maxReconnectAttempts_def replicate_append_same)
qed

lemma failure_last:
  assumes "afterFailures 5 s"
  shows "afterFailures 6 (wsRun (failures 5 [f]) s)"
proof -
  from assms have so: "sockets s = replicate 5 CLOSED @ [CONNECTING]"
    by (simp add: afterFailures_def)
  then have len: "5 < length (sockets s)" and live: "sockets s ! 5 = CONNECTING"
    by (simp_all add: nth_append)
  have upd: "(sockets s)[5 := CLOSED] = replicate 6 CLOSED"
    by (simp add: so list_update_append eval_nat_numeral)
  from assms len live upd show ?thesis
    by (cases f)
       (simp_all add: afterFailures_def onerror_def onclose_def connect_def created_def
          maxReconnectAttempts_def)
qed

lemma failure_beyond:
  assumes "afterFailures k s" and "5 < k"
  shows "afterFailures (Suc k) (wsRun (failures k [f]) s)"
proof -
  from assms have so: "sockets s = replicate 6 CLOSED"
    by (simp add: afterFailures_def)
  then have len: "\<not> k < length (sockets s)" using assms(2) by simp
  from assms len show ?thesis
    by (cases f) (simp_all add: afterFailures_def)
qed

lemma afterFailures_run:
  "afterFailures (length fs) (wsRun (failures 0 fs) (connect (newTickerWebSocket h sy)))"
proof (induction fs rule: rev_induct)
  case Nil
  show ?case by (simp add: afterFailures_start)
next
  case (snoc f fs)
  let ?s = "wsRun (failures 0 fs) (connect (newTickerWebSocket h sy))"
  have run: "wsRun (failures 0 (fs @ [f])) (connect (newTickerWebSocket h sy))
               = wsRun (failures (length fs) [f]) ?s"
    by (simp add: failures_append wsRun_append)
  consider "length fs < 5" | "length fs = 5" | "5 < length fs" by linarith
  then have "afterFailures (Suc (length fs)) (wsRun (failures (length fs) [f]) ?s)"
  proof cases
    case 1
    with snoc.IH show ?thesis by (rule failure_within_budget)
  next
    case 2
    with snoc.IH failure_last [of ?s f] show ?thesis by simp
  next
    case 3
    with snoc.IH show ?thesis by (rule failure_beyond)
  qed
  with run show ?case by simp
qed

lemma closedPermanent_quiet:
  assumes "closedPermanent s" and "automatic e"
  shows "wsStep e s = s"
proof -
  from assms(1) have cl: "\<And>i. i < length (sockets s) \<Longrightarrow> sockets s ! i = CLOSED"
    and ti: "timers s = 0"
    by (simp_all add: closedPermanent_def list_all_length)
  from assms(2) cl ti show ?thesis
    by (cases e) auto
qed

text \<open>
  C5 (as stated) fails: a run of one failure performs one reconnect attempt, not five,
  and does not end in Closed-Permanent; after a run of five failures the fifth attempt's
  socket is connecting, so the client is not in Closed-Permanent either.
\<close>

theorem C5_run_counterexample:
  "length (filter isSetTimeout (effects (wsRun (failures 0 [ErrorThenClose])
       (connect (newTickerWebSocket ''localhost'' ''BTC/USDT''))))) = 1
   \<and> \<not> closedPermanent (wsRun (failures 0 [ErrorThenClose])
       (connect (newTickerWebSocket ''localhost'' ''BTC/USDT'')))
   \<and> sockets (wsRun (failures 0 (replicate 5 ErrorThenClose))
       (connect (newTickerWebSocket ''localhost'' ''BTC/USDT'')))
       = [CLOSED, CLOSED, CLOSED, CLOSED, CLOSED, CONNECTING]
   \<and> \<not> closedPermanent (wsRun (failures 0 (replicate 5 ErrorThenClose))
       (connect (newTickerWebSocket ''localhost'' ''BTC/USDT'')))"
proof -
  let ?one = "wsRun (failures 0 [ErrorThenClose])
                (connect (newTickerWebSocket ''localhost'' ''BTC/USDT''))"
  let ?five = "wsRun (failures 0 (replicate 5 ErrorThenClose))
                 (connect (newTickerWebSocket ''localhost'' ''BTC/USDT''))"
  have one: "length (filter isSetTimeout (effects ?one)) = 1 \<and> \<not> closedPermanent ?one"
    by (simp add: ws_defs)
  have "afterFailures (length (replicate 5 ErrorThenClose)) ?five"
    by (rule afterFailures_run)
  then have so: "sockets ?five = [CLOSED, CLOSED, CLOSED, CLOSED, CLOSED, CONNECTING]"
    by (simp add: afterFailures_def eval_nat_numeral del: wsRun.simps failures.simps)
  then have "\<not> closedPermanent ?five"
    by (simp add: closedPermanent_def del: wsRun.simps failures.simps)
  with one so show ?thesis by blast
qed

text \<open>
  C5 (amended): from a fresh client that has connected, a run of \<open>k\<close> consecutive
  failures (an error followed by the close, or a close alone) with no call of the owner
  in between performs exactly \<open>min k 5\<close> reconnect attempts, each scheduled with the fixed
  delay of 3000 ms and each counted in \<open>reconnectAttempts\<close>. After at most five failures
  the last attempt's socket is connecting; from the sixth failure on the client is in
  Closed-Permanent, where no socket or timer event changes it.
\<close>

theorem C5_reconnect_budget:
  "reconnectAttempts (wsRun (failures 0 fs) (connect (newTickerWebSocket h sy)))
     = min (length fs) 5
   \<and> filter isSetTimeout (effects (wsRun (failures 0 fs) (connect (newTickerWebSocket h sy))))
     = replicate (min (length fs) 5) (SetTimeout 3000)
   \<and> created (wsRun (failures 0 fs) (connect (newTickerWebSocket h sy)))
     = 1 + min (length fs) 5
   \<and> timers (wsRun (failures 0 fs) (connect (newTickerWebSocket h sy))) = 0
   \<and> (length fs \<le> 5 \<longrightarrow>
        ws (wsRun (failures 0 fs) (connect (newTickerWebSocket h sy))) = Some (length fs)
        \<and> sockets (wsRun (failures 0 fs) (connect (newTickerWebSocket h sy))) ! length fs
            = CONNECTING)
   \<and> (5 < length fs \<longrightarrow>
        closedPermanent (wsRun (failures 0 fs) (connect (newTickerWebSocket h sy)))
        \<and> (\<forall>e. automatic e \<longrightarrow>
              wsStep e (wsRun (failures 0 fs) (connect (newTickerWebSocket h sy)))
                = wsRun (failures 0 fs) (connect (newTickerWebSocket h sy))))"
proof -
  let ?s = "wsRun (failures 0 fs) (connect (newTickerWebSocket h sy))"
  have inv: "afterFailures (length fs) ?s"
    by (rule afterFailures_run)
  have live: "sockets ?s ! length fs = CONNECTING" if "length fs \<le> 5"
    using inv that by (simp add: afterFailures_def nth_append)
  have perm: "closedPermanent ?s" if "5 < length fs"
    using inv that
    by (simp add: afterFailures_def closedPermanent_def maxReconnectAttempts_def list_all_iff)
  from inv live perm closedPermanent_quiet [of ?s] show ?thesis
    by (simp add: afterFailures_def)
qed

theorem C5_reconnect_budget_witness:
  "5 < length (replicate 6 UnexpectedClose)
   \<and> reconnectAttempts exhaustedClient = 5
   \<and> filter isSetTimeout (effects exhaustedClient) = replicate 5 (SetTimeout 3000)
   \<and> created exhaustedClient = 6
   \<and> closedPermanent exhaustedClient
   \<and> wsStep TimerFire exhaustedClient = exhaustedClient"
proof -
  have len: "length (replicate 6 UnexpectedClose) = 6" by simp
  have auto: "automatic TimerFire" by simp
  from C5_reconnect_budget [of "replicate 6 UnexpectedClose" "''localhost''" "''BTC/USDT''"]
  show ?thesis
    unfolding len exhaustedClient_def [symmetric] using auto by simp
qed

subsection \<open>The retry counter is never reset\<close>

lemma wsStep_attempts_mono: "reconnectAttempts s \<le> reconnectAttempts (wsStep e s)"
  by (cases e)
     (auto simp: connect_def disconnect_def onmessage_def onerror_def onclose_def
           split: option.splits sum.splits)

lemma wsRun_attempts_mono: "reconnectAttempts s \<le> reconnectAttempts (wsRun es s)"
proof (induction es arbitrary: s)
  case Nil
  show ?case by simp
next
  case (Cons e es)
  have "reconnectAttempts s \<le> reconnectAttempts (wsStep e s)"
    by (rule wsStep_attempts_mono)
  also have "\<dots> \<le> reconnectAttempts (wsRun es (wsStep e s))"
    by (rule Cons.IH)
  finally show ?case by simp
qed

lemma wsStep_exhausted:
  assumes "maxReconnectAttempts \<le> reconnectAttempts s"
  shows "filter isSetTimeout (effects (wsStep e s)) = filter isSetTimeout (effects s)
       \<and> reconnectAttempts (wsStep e s) = reconnectAttempts s
       \<and> created (wsStep e s) + timers (wsStep e s)
           = created s + timers s + (if e = CallConnect then 1 else 0)"
  using assms
  by (cases e)
     (auto simp: connect_def disconnect_def onmessage_def onerror_def onclose_def created_def
           split: option.splits sum.splits)

lemma wsRun_exhausted:
  assumes "maxReconnectAttempts \<le> reconnectAttempts s"
  shows "filter isSetTimeout (effects (wsRun es s)) = filter isSetTimeout (effects s)
       \<and> reconnectAttempts (wsRun es s) = reconnectAttempts s
       \<and> created (wsRun es s) + timers (wsRun es s)
           = created s + timers s + count_list es CallConnect"
  using assms
proof (induction es arbitrary: s)
  case Nil
  show ?case by simp
next
  case (Cons e es)
  note st = wsStep_exhausted [OF Cons.prems, of e]
  from st Cons.prems have "maxReconnectAttempts \<le> reconnectAttempts (wsStep e s)" by simp
  from Cons.IH [OF this] st show ?case by auto
qed

text \<open>
  C10: over any sequence of calls and events the retry counter never decreases
  (\<open>connect()\<close> and \<open>disconnect()\<close> do not reset it). Once it has reached the budget of 5
  it stays where it is and no timeout is scheduled any more: every socket created from
  then on comes from an explicit \<open>connect()\<close> or from a timeout that was already pending.
\<close>

theorem C10_counter_never_reset:
  "reconnectAttempts s \<le> reconnectAttempts (wsRun es s)
   \<and> reconnectAttempts (connect s) = reconnectAttempts s
   \<and> reconnectAttempts (disconnect s) = reconnectAttempts s
   \<and> (maxReconnectAttempts \<le> reconnectAttempts s \<longrightarrow>
        reconnectAttempts (wsRun es s) = reconnectAttempts s
        \<and> filter isSetTimeout (effects (wsRun es s)) = filter isSetTimeout (effects s)
        \<and> created (wsRun es s) + timers (wsRun es s)
            = created s + timers s + count_list es CallConnect)"
proof -
  have "reconnectAttempts (connect s) = reconnectAttempts s"
    by (simp add: connect_def)
  moreover have "reconnectAttempts (disconnect s) = reconnectAttempts s"
    by (simp add: disconnect_def split: option.splits)
  ultimately show ?thesis
    using wsRun_attempts_mono [of s es] wsRun_exhausted [of s es] by simp
qed

theorem C10_counter_never_reset_witness:
  "maxReconnectAttempts \<le> reconnectAttempts exhaustedClient
   \<and> reconnectAttempts
        (wsRun [CallDisconnect, CallConnect, SockOpen 6, SockClose 6, TimerFire] exhaustedClient)
       = reconnectAttempts exhaustedClient
   \<and> filter isSetTimeout (effects
        (wsRun [CallDisconnect, CallConnect, SockOpen 6, SockClose 6, TimerFire] exhaustedClient))
       = filter isSetTimeout (effects exhaustedClient)"
proof -
  have "afterFailures (length (replicate 6 UnexpectedClose)) exhaustedClient"
    unfolding exhaustedClient_def by (rule afterFailures_run)
  then have a: "maxReconnectAttempts \<le> reconnectAttempts exhaustedClient"
    by (simp add: afterFailures_def maxReconnectAttempts_def)
  from a C10_counter_never_reset
    [of exhaustedClient "[CallDisconnect, CallConnect, SockOpen 6, SockClose 6, TimerFire]"]
  show ?thesis by blast
qed

subsection \<open>Inbound messages\<close>

text \<open>
  C6 (as stated) fails: an unparseable payload makes \<open>JSON.parse\<close> throw inside the
  \<open>onmessage\<close> handler, nothing catches the exception, and the error callback is not
  called.
\<close>

theorem C6_unparseable_counterexample:
  "onmessage None openClient = Inl SyntaxError
   \<and> effects (wsStep (SockMessage 0 None) openClient)
       = [NewWebSocket ''ws://localhost/ws/ticker/BTC-USDT'', Uncaught SyntaxError]
   \<and> OnError \<notin> set (effects (wsStep (SockMessage 0 None) openClient))"
  by (simp add: openClient_def ws_defs)

text \<open>
  C6 (amended): for every inbound message whose payload is not parseable JSON, the
  SyntaxError of \<open>JSON.parse\<close> leaves the \<open>onmessage\<close> handler uncaught; neither
  callback is called, and the client's fields, among them the retry counter, stay as
  they are.
\<close>

theorem C6_unparseable:
  "onmessage None s = Inl SyntaxError
   \<and> wsStep (SockMessage i None) s
       = (if i < length (sockets s) \<and> (sockets s ! i = OPEN \<or> sockets s ! i = CLOSING)
          then s\<lparr>effects := effects s @ [Uncaught SyntaxError]\<rparr> else s)
   \<and> reconnectAttempts (wsStep (SockMessage i None) s) = reconnectAttempts s
   \<and> timers (wsStep (SockMessage i None) s) = timers s
   \<and> OnError \<notin> set (effects (wsStep (SockMessage i None) s)) - set (effects s)"
  by (simp add: onmessage_def)

theorem C6_unparseable_witness:
  "wsStep (SockMessage 0 None) openClient
     = openClient\<lparr>effects := effects openClient @ [Uncaught SyntaxError]\<rparr>
   \<and> reconnectAttempts (wsStep (SockMessage 0 None) openClient)
       = reconnectAttempts openClient"
  using C6_unparseable [of openClient 0] by (simp add: openClient_sockets)

text \<open>
  C7: for an inbound envelope with the properties \<open>type\<close> and \<open>data\<close>, \<open>onMessage\<close> is
  called with \<open>data\<close> exactly when \<open>type\<close> is the string \<open>ticker\<close>; for every other type
  the handler returns normally and the client is unchanged.
\<close>

theorem C7_dispatch:
  assumes "map_of fs ''type'' = Some t" and "map_of fs ''data'' = Some d"
  shows "onmessage (Some (JObj fs)) s
           = Inr (if t = JStr ''ticker'' then s\<lparr>effects := effects s @ [OnMessage d]\<rparr> else s)
       \<and> wsStep (SockMessage i (Some (JObj fs))) s
           = (if i < length (sockets s) \<and> (sockets s ! i = OPEN \<or> sockets s ! i = CLOSING)
                 \<and> t = JStr ''ticker''
              then s\<lparr>effects := effects s @ [OnMessage d]\<rparr> else s)
       \<and> (effects (wsStep (SockMessage i (Some (JObj fs))) s) \<noteq> effects s
            \<longrightarrow> t = JStr ''ticker'')"
  using assms by (simp add: onmessage_def)

theorem C7_dispatch_witness:
  "wsStep (SockMessage 0
       (Some (JObj [(''type'', JStr ''trade''), (''data'', JObj [(''price'', JNum 7)])])))
     openClient = openClient
   \<and> effects (wsStep (SockMessage 0
       (Some (JObj [(''type'', JStr ''ticker''), (''data'', JObj [(''last'', JNum 100)])])))
     openClient) = effects openClient @ [OnMessage (JObj [(''last'', JNum 100)])]"
proof -
  have a: "map_of [(''type'', JStr ''trade''), (''data'', JObj [(''price'', JNum 7)])] ''type''
             = Some (JStr ''trade'')"
    by simp
  have b: "map_of [(''type'', JStr ''trade''), (''data'', JObj [(''price'', JNum 7)])] ''data''
             = Some (JObj [(''price'', JNum 7)])"
    by simp
  have c: "map_of [(''type'', JStr ''ticker''), (''data'', JObj [(''last'', JNum 100)])] ''type''
             = Some (JStr ''ticker'')"
    by simp
  have d: "map_of [(''type'', JStr ''ticker''), (''data'', JObj [(''last'', JNum 100)])] ''data''
             = Some (JObj [(''last'', JNum 100)])"
    by simp
  from C7_dispatch [OF a b, of openClient 0] C7_dispatch [OF c d, of openClient 0]
    openClient_sockets
  show ?thesis by simp
qed

section \<open>App.tsx: results\<close>

lemmas app_defs = fetchSymbols_def fetchSymbolsResume_def fetchData_def afterTicker_def
  afterOHLCV_def afterAnalysis_def fetchDataResume_def refreshSetup_def clearInterval_def
  refreshCleanup_def refreshTick_def refreshResume_def handleSymbolChange_def
  handleTimeframeChange_def isLoading_def

lemmas api_defs = getSymbols_def getTicker_def getOHLCV_def getFullAnalysis_def formatSymbol_def

lemma oneInterval_mounted:
  assumes "oneInterval s" and "mounted s"
  obtains iv where "intervals s = [iv]" and "ivPeriod iv = 5000"
    and "ivSymbol iv = selectedSymbol s" and "effectInterval s = Some (ivId iv)"
proof -
  from assms have p: "map ivPeriod (intervals s) = [5000]"
    and q: "map ivSymbol (intervals s) = [selectedSymbol s]"
    and r: "map (\<lambda>iv. Some (ivId iv)) (intervals s) = [effectInterval s]"
    by (simp_all add: oneInterval_def)
  from p obtain iv where iv: "intervals s = [iv]"
    by (cases "intervals s") auto
  with p q r that show thesis by simp
qed

lemma oneInterval_initial: "oneInterval initialApp"
  by (simp add: oneInterval_def initialApp_def)

lemma oneInterval_symbolChange:
  assumes "oneInterval s" and "mounted s" and "sy \<noteq> selectedSymbol s"
  shows "intervals (refreshCleanup (s\<lparr>selectedSymbol := sy, analysis := None, ticker := None\<rparr>)) = []"
    and "intervals (handleSymbolChange sy s)
           = [\<lparr>ivId = nextInterval s, ivPeriod = 5000, ivSymbol = sy\<rparr>]"
    and "oneInterval (handleSymbolChange sy s)"
proof -
  from assms(1,2) obtain iv where iv: "intervals s = [iv]" "effectInterval s = Some (ivId iv)"
    by (rule oneInterval_mounted)
  from iv show "intervals (refreshCleanup (s\<lparr>selectedSymbol := sy, analysis := None, ticker := None\<rparr>)) = []"
    by (simp add: refreshCleanup_def clearInterval_def)
  from iv assms(3) show "intervals (handleSymbolChange sy s)
           = [\<lparr>ivId = nextInterval s, ivPeriod = 5000, ivSymbol = sy\<rparr>]"
    by (simp add: handleSymbolChange_def refreshCleanup_def clearInterval_def fetchData_def
          refreshSetup_def Let_def)
  from iv assms(2,3) show "oneInterval (handleSymbolChange sy s)"
    by (simp add: handleSymbolChange_def refreshCleanup_def clearInterval_def fetchData_def
          refreshSetup_def oneInterval_def Let_def)
qed

lemma oneInterval_step:
  assumes "oneInterval s"
  shows "oneInterval (appStep e s)"
proof (cases e)
  case Mount
  with assms show ?thesis
    by (simp add: oneInterval_def refreshSetup_def fetchData_def fetchSymbols_def)
next
  case (SymbolChange sy)
  show ?thesis
  proof (cases "mounted s \<and> sy \<noteq> selectedSymbol s")
    case True
    with assms SymbolChange show ?thesis by (simp add: oneInterval_symbolChange(3))
  next
    case False
    with assms SymbolChange show ?thesis
      by (auto simp: handleSymbolChange_def oneInterval_def Let_def)
  qed
next
  case (TimeframeChange tf)
  with assms show ?thesis
    by (simp add: handleTimeframeChange_def fetchData_def oneInterval_def Let_def)
next
  case ClickRefresh
  with assms show ?thesis by (simp add: fetchData_def oneInterval_def)
next
  case (SettleSymbols out)
  with assms show ?thesis
    by (cases out) (simp_all add: fetchSymbolsResume_def oneInterval_def)
next
  case (SettleFetch i out now)
  with assms show ?thesis
    by (cases out; cases "taskAt (tasks s ! i)")
       (simp_all add: fetchDataResume_def afterTicker_def afterOHLCV_def afterAnalysis_def
          oneInterval_def Let_def)
next
  case (IntervalTick k)
  with assms show ?thesis
    by (simp add: refreshTick_def oneInterval_def split: option.splits)
next
  case (SettlePoll j out)
  with assms show ?thesis
    by (cases out) (simp_all add: refreshResume_def oneInterval_def Let_def)
qed

lemma oneInterval_run: "oneInterval s \<Longrightarrow> oneInterval (appRun es s)"
  by (induction es arbitrary: s) (simp_all add: oneInterval_step)


lemmas scenario_defs = btcTicker_def upstreamDown_def mountedApp_def switchedApp_def
  analysisPending_def refreshedApp_def polledApp_def initialApp_def requestFailed_def

lemma mountedApp_eval:
  "mountedApp =
     \<lparr>mounted = True, symbols = [], selectedSymbol = ''BTC/USDT'', chartTimeframe = ''1h'',
      ticker = None, ohlcv = JArr [], analysis = None,
      loading = \<lparr>l_symbols = True, l_ticker = True, l_chart = False, l_analysis = False\<rparr>,
      error = None, lastUpdate = None,
      requests = [GetSymbols ''binance'', GetTicker ''BTC-USDT'' ''binance''],
      symbolsPending = True,
      tasks = [\<lparr>taskSymbol = ''BTC/USDT'', taskTimeframe = ''1h'', taskAt = AwaitTicker\<rparr>],
      intervals = [\<lparr>ivId = 0, ivPeriod = 5000, ivSymbol = ''BTC/USDT''\<rparr>],
      nextInterval = 1, effectInterval = Some 0, polls = []\<rparr>"
  by (simp add: scenario_defs app_defs api_defs)

lemma switchedApp_eval:
  "switchedApp =
     \<lparr>mounted = True, symbols = [], selectedSymbol = ''ETH/USDT'', chartTimeframe = ''1h'',
      ticker = None, ohlcv = JArr [], analysis = None,
      loading = \<lparr>l_symbols = True, l_ticker = True, l_chart = False, l_analysis = False\<rparr>,
      error = None, lastUpdate = None,
      requests = [GetSymbols ''binance'', GetTicker ''BTC-USDT'' ''binance'',
                  GetTicker ''ETH-USDT'' ''binance''],
      symbolsPending = True,
      tasks = [\<lparr>taskSymbol = ''BTC/USDT'', taskTimeframe = ''1h'', taskAt = AwaitTicker\<rparr>,
               \<lparr>taskSymbol = ''ETH/USDT'', taskTimeframe = ''1h'', taskAt = AwaitTicker\<rparr>],
      intervals = [\<lparr>ivId = 1, ivPeriod = 5000, ivSymbol = ''ETH/USDT''\<rparr>],
      nextInterval = 2, effectInterval = Some 1, polls = []\<rparr>"
  unfolding switchedApp_def mountedApp_eval
  by (simp add: app_defs api_defs Let_def)

lemma analysisPending_eval:
  "analysisPending =
     \<lparr>mounted = True, symbols = [], selectedSymbol = ''BTC/USDT'', chartTimeframe = ''1h'',
      ticker = Some btcTicker, ohlcv = JArr [], analysis = None,
      loading = \<lparr>l_symbols = True, l_ticker = False, l_chart = False, l_analysis = True\<rparr>,
      error = None, lastUpdate = None,
      requests = [GetSymbols ''binance'', GetTicker ''BTC-USDT'' ''binance'',
                  GetOHLCV ''BTC-USDT'' ''1h'' ''binance'' 500,
                  GetFullAnalysis ''BTC-USDT'' ''binance''],
      symbolsPending = True,
      tasks = [\<lparr>taskSymbol = ''BTC/USDT'', taskTimeframe = ''1h'', taskAt = AwaitAnalysis\<rparr>],
      intervals = [\<lparr>ivId = 0, ivPeriod = 5000, ivSymbol = ''BTC/USDT''\<rparr>],
      nextInterval = 1, effectInterval = Some 0, polls = []\<rparr>"
  unfolding analysisPending_def mountedApp_eval
  by (simp add: app_defs api_defs Let_def)

lemma upstreamDown_eval:
  "upstreamDown = \<lparr>message = Some ''Request failed with status code 500'',
                    response = Some (500, JObj [(''message'', JStr ''upstream down'')])\<rparr>"
  by (simp add: upstreamDown_def requestFailed_def decimal.simps)

lemma refreshedApp_eval:
  "refreshedApp =
     \<lparr>mounted = True, symbols = [], selectedSymbol = ''BTC/USDT'', chartTimeframe = ''1h'',
      ticker = Some btcTicker, ohlcv = JArr [], analysis = None,
      loading = \<lparr>l_symbols = True, l_ticker = False, l_chart = False, l_analysis = True\<rparr>,
      error = None, lastUpdate = None,
      requests = [GetSymbols ''binance'', GetTicker ''BTC-USDT'' ''binance'',
                  GetOHLCV ''BTC-USDT'' ''1h'' ''binance'' 500,
                  GetFullAnalysis ''BTC-USDT'' ''binance'',
                  GetTicker ''BTC-USDT'' ''binance'',
                  GetOHLCV ''BTC-USDT'' ''1h'' ''binance'' 500,
                  GetFullAnalysis ''BTC-USDT'' ''binance''],
      symbolsPending = True,
      tasks = [\<lparr>taskSymbol = ''BTC/USDT'', taskTimeframe = ''1h'', taskAt = Finished\<rparr>,
               \<lparr>taskSymbol = ''BTC/USDT'', taskTimeframe = ''1h'', taskAt = AwaitAnalysis\<rparr>],
      intervals = [\<lparr>ivId = 0, ivPeriod = 5000, ivSymbol = ''BTC/USDT''\<rparr>],
      nextInterval = 1, effectInterval = Some 0, polls = []\<rparr>"
  unfolding refreshedApp_def analysisPending_eval
  by (simp add: app_defs api_defs Let_def)


lemma polledApp_eval:
  "polledApp = mountedApp
     \<lparr>requests := requests mountedApp @ [GetTicker ''BTC-USDT'' ''binance''],
      polls := [\<lparr>pollSymbol = ''BTC/USDT'', pollPending = True\<rparr>]\<rparr>"
  unfolding polledApp_def mountedApp_eval
  by (simp add: app_defs api_defs)

subsection \<open>Stale responses\<close>

text \<open>
  No event touches the symbol and the timeframe that a run of \<open>fetchData\<close> has
  captured, and no run is ever dropped from the list.
\<close>

lemma fetchData_task_frame:
  assumes "i < length (tasks s)"
  shows "i < length (tasks (fetchData sy tf s))
       \<and> taskSymbol (tasks (fetchData sy tf s) ! i) = taskSymbol (tasks s ! i)
       \<and> taskTimeframe (tasks (fetchData sy tf s) ! i) = taskTimeframe (tasks s ! i)"
  using assms by (simp add: fetchData_def nth_append)

lemma fetchDataResume_task_frame:
  assumes "i < length (tasks s)"
  shows "i < length (tasks (fetchDataResume j out now s))
       \<and> taskSymbol (tasks (fetchDataResume j out now s) ! i) = taskSymbol (tasks s ! i)
       \<and> taskTimeframe (tasks (fetchDataResume j out now s) ! i) = taskTimeframe (tasks s ! i)"
  using assms
  by (cases out; cases "taskAt (tasks s ! j)")
     (simp_all add: fetchDataResume_def afterTicker_def afterOHLCV_def afterAnalysis_def
        Let_def nth_list_update)

lemma appStep_task_frame:
  assumes "i < length (tasks s)"
  shows "i < length (tasks (appStep e s))
       \<and> taskSymbol (tasks (appStep e s) ! i) = taskSymbol (tasks s ! i)
       \<and> taskTimeframe (tasks (appStep e s) ! i) = taskTimeframe (tasks s ! i)"
proof (cases e)
  case Mount
  with assms show ?thesis
    by (simp add: refreshSetup_def fetchData_def fetchSymbols_def nth_append)
next
  case (SymbolChange sy)
  with assms show ?thesis
    by (simp add: handleSymbolChange_def refreshSetup_def fetchData_def refreshCleanup_def
          clearInterval_def Let_def nth_append split: option.splits)
next
  case (TimeframeChange tf)
  with assms show ?thesis
    by (simp add: handleTimeframeChange_def fetchData_def Let_def nth_append)
next
  case ClickRefresh
  with assms fetchData_task_frame [OF assms] show ?thesis by simp
next
  case (SettleSymbols out)
  with assms show ?thesis
    by (cases out) (simp_all add: fetchSymbolsResume_def)
next
  case (SettleFetch j out now)
  with fetchDataResume_task_frame [OF assms] show ?thesis by simp
next
  case (IntervalTick k)
  with assms show ?thesis
    by (simp add: refreshTick_def split: option.splits)
next
  case (SettlePoll j out)
  with assms show ?thesis
    by (cases out) (simp_all add: refreshResume_def Let_def)
qed

lemma appRun_task_frame:
  assumes "i < length (tasks s)"
  shows "i < length (tasks (appRun es s))
       \<and> taskSymbol (tasks (appRun es s) ! i) = taskSymbol (tasks s ! i)
       \<and> taskTimeframe (tasks (appRun es s) ! i) = taskTimeframe (tasks s ! i)"
  using assms
proof (induction es arbitrary: s)
  case Nil
  then show ?case by simp
next
  case (Cons e es)
  note st = appStep_task_frame [OF Cons.prems, of e]
  from st have "i < length (tasks (appStep e s))" by simp
  from Cons.IH [OF this] st show ?case by simp
qed

lemma fetchData_captures:
  "length (tasks s) < length (tasks (fetchData sy tf s))
   \<and> taskSymbol (tasks (fetchData sy tf s) ! length (tasks s)) = sy
   \<and> taskTimeframe (tasks (fetchData sy tf s) ! length (tasks s)) = tf"
  by (simp add: fetchData_def)

text \<open>
  C1 (as stated) fails: there is no generation tag and no check. After a switch from
  \<open>BTC/USDT\<close> to \<open>ETH/USDT\<close> the late ticker response for \<open>BTC/USDT\<close> is stored as the
  ticker, and the old run goes on to request the OHLCV data of \<open>BTC/USDT\<close>.
\<close>

theorem C1_stale_response_counterexample:
  "selectedSymbol switchedApp = ''ETH/USDT''
   \<and> taskSymbol (tasks switchedApp ! 0) = ''BTC/USDT''
   \<and> ticker switchedApp = None
   \<and> ticker (appStep (SettleFetch 0 (Fulfilled btcTicker) 1) switchedApp) = Some btcTicker
   \<and> selectedSymbol (appStep (SettleFetch 0 (Fulfilled btcTicker) 1) switchedApp) = ''ETH/USDT''
   \<and> last (requests (appStep (SettleFetch 0 (Fulfilled btcTicker) 1) switchedApp))
       = GetOHLCV ''BTC-USDT'' ''1h'' ''binance'' 500"
  unfolding switchedApp_eval
  by (simp add: app_defs api_defs Let_def)

text \<open>
  C1 (amended): every run of \<open>fetchData\<close> issues its requests for the symbol and
  timeframe it captured when it started: the pair is recorded at the start, no later
  event of any kind changes it, and the OHLCV and analysis requests are built from it.
  Each successful response is stored in the view model state when it arrives, whatever
  symbol and timeframe are selected by then; settling a request does not change the
  selection, and no response is discarded.
\<close>

theorem C1_responses_applied:
  "tasks (fetchData sy tf s)
     = tasks s @ [\<lparr>taskSymbol = sy, taskTimeframe = tf, taskAt = AwaitTicker\<rparr>]
   \<and> requests (fetchData sy tf s) = requests s @ [getTicker sy]
   \<and> length (tasks s) < length (tasks (appRun es (fetchData sy tf s)))
   \<and> taskSymbol (tasks (appRun es (fetchData sy tf s)) ! length (tasks s)) = sy
   \<and> taskTimeframe (tasks (appRun es (fetchData sy tf s)) ! length (tasks s)) = tf
   \<and> (i < length (tasks s) \<longrightarrow>
        i < length (tasks (appRun es s))
        \<and> taskSymbol (tasks (appRun es s) ! i) = taskSymbol (tasks s ! i)
        \<and> taskTimeframe (tasks (appRun es s) ! i) = taskTimeframe (tasks s ! i))
   \<and> (i < length (tasks s) \<and> taskAt (tasks s ! i) = AwaitTicker \<longrightarrow>
        ticker (appStep (SettleFetch i (Fulfilled d) now) s) = Some d
        \<and> requests (appStep (SettleFetch i out now) s)
            = requests s @ [getOHLCV (taskSymbol (tasks s ! i)) (taskTimeframe (tasks s ! i))])
   \<and> (i < length (tasks s) \<and> taskAt (tasks s ! i) = AwaitOHLCV \<longrightarrow>
        ohlcv (appStep (SettleFetch i (Fulfilled d) now) s) = d
        \<and> requests (appStep (SettleFetch i out now) s)
            = requests s @ [getFullAnalysis (taskSymbol (tasks s ! i))])
   \<and> (i < length (tasks s) \<and> taskAt (tasks s ! i) = AwaitAnalysis \<longrightarrow>
        analysis (appStep (SettleFetch i (Fulfilled d) now) s) = Some d
        \<and> lastUpdate (appStep (SettleFetch i (Fulfilled d) now) s) = Some now)
   \<and> selectedSymbol (appStep (SettleFetch i out now) s) = selectedSymbol s
   \<and> chartTimeframe (appStep (SettleFetch i out now) s) = chartTimeframe s"
proof -
  have start: "tasks (fetchData sy tf s)
       = tasks s @ [\<lparr>taskSymbol = sy, taskTimeframe = tf, taskAt = AwaitTicker\<rparr>]
     \<and> requests (fetchData sy tf s) = requests s @ [getTicker sy]"
    by (simp add: fetchData_def)
  have kept: "length (tasks s) < length (tasks (appRun es (fetchData sy tf s)))
     \<and> taskSymbol (tasks (appRun es (fetchData sy tf s)) ! length (tasks s)) = sy
     \<and> taskTimeframe (tasks (appRun es (fetchData sy tf s)) ! length (tasks s)) = tf"
    using fetchData_captures [of s sy tf]
      appRun_task_frame [of "length (tasks s)" "fetchData sy tf s" es]
    by simp
  have frame: "i < length (tasks (appRun es s))
     \<and> taskSymbol (tasks (appRun es s) ! i) = taskSymbol (tasks s ! i)
     \<and> taskTimeframe (tasks (appRun es s) ! i) = taskTimeframe (tasks s ! i)"
    if "i < length (tasks s)"
    using that by (rule appRun_task_frame)
  have settle: "(i < length (tasks s) \<and> taskAt (tasks s ! i) = AwaitTicker \<longrightarrow>
        ticker (appStep (SettleFetch i (Fulfilled d) now) s) = Some d
        \<and> requests (appStep (SettleFetch i out now) s)
            = requests s @ [getOHLCV (taskSymbol (tasks s ! i)) (taskTimeframe (tasks s ! i))])
   \<and> (i < length (tasks s) \<and> taskAt (tasks s ! i) = AwaitOHLCV \<longrightarrow>
        ohlcv (appStep (SettleFetch i (Fulfilled d) now) s) = d
        \<and> requests (appStep (SettleFetch i out now) s)
            = requests s @ [getFullAnalysis (taskSymbol (tasks s ! i))])
   \<and> (i < length (tasks s) \<and> taskAt (tasks s ! i) = AwaitAnalysis \<longrightarrow>
        analysis (appStep (SettleFetch i (Fulfilled d) now) s) = Some d
        \<and> lastUpdate (appStep (SettleFetch i (Fulfilled d) now) s) = Some now)
   \<and> selectedSymbol (appStep (SettleFetch i out now) s) = selectedSymbol s
   \<and> chartTimeframe (appStep (SettleFetch i out now) s) = chartTimeframe s"
    by (cases out; cases "taskAt (tasks s ! i)")
       (simp_all add: fetchDataResume_def afterTicker_def afterOHLCV_def
          afterAnalysis_def Let_def)
  from start kept frame settle show ?thesis by blast
qed

theorem C1_responses_applied_witness:
  "0 < length (tasks switchedApp)
   \<and> taskAt (tasks switchedApp ! 0) = AwaitTicker
   \<and> taskSymbol (tasks switchedApp ! 0) = ''BTC/USDT''
   \<and> selectedSymbol (appStep (SettleFetch 0 (Fulfilled btcTicker) 1) switchedApp) = ''ETH/USDT''
   \<and> ticker (appStep (SettleFetch 0 (Fulfilled btcTicker) 1) switchedApp) = Some btcTicker
   \<and> requests (appStep (SettleFetch 0 (Fulfilled btcTicker) 1) switchedApp)
       = requests switchedApp @ [getOHLCV ''BTC/USDT'' ''1h'']
   \<and> 0 < length (tasks mountedApp)
   \<and> taskSymbol (tasks (appRun
        [SymbolChange ''ETH/USDT'', TimeframeChange ''4h'',
         SettleFetch 0 (Fulfilled btcTicker) 1, SettleFetch 0 (Fulfilled (JArr [])) 2]
        mountedApp) ! 0) = ''BTC/USDT''
   \<and> taskTimeframe (tasks (appRun
        [SymbolChange ''ETH/USDT'', TimeframeChange ''4h'',
         SettleFetch 0 (Fulfilled btcTicker) 1, SettleFetch 0 (Fulfilled (JArr [])) 2]
        mountedApp) ! 0) = ''1h''"
proof -
  have a: "0 < length (tasks switchedApp)" "taskAt (tasks switchedApp ! 0) = AwaitTicker"
    "taskSymbol (tasks switchedApp ! 0) = ''BTC/USDT''"
    "taskTimeframe (tasks switchedApp ! 0) = ''1h''"
    "selectedSymbol switchedApp = ''ETH/USDT''"
    by (simp_all add: switchedApp_eval)
  have b: "0 < length (tasks mountedApp)" "taskSymbol (tasks mountedApp ! 0) = ''BTC/USDT''"
    "taskTimeframe (tasks mountedApp ! 0) = ''1h''"
    by (simp_all add: mountedApp_eval)
  note t1 = C1_responses_applied [where s = switchedApp and i = 0 and d = btcTicker
      and now = 1 and out = "Fulfilled btcTicker" and es = "[]"
      and sy = "''ETH/USDT''" and tf = "''1h''"]
  note t2 = C1_responses_applied [where s = mountedApp and i = 0 and d = btcTicker
      and now = 1 and out = "Fulfilled btcTicker"
      and es = "[SymbolChange ''ETH/USDT'', TimeframeChange ''4h'',
                 SettleFetch 0 (Fulfilled btcTicker) 1, SettleFetch 0 (Fulfilled (JArr [])) 2]"
      and sy = "''ETH/USDT''" and tf = "''1h''"]
  from a t1 have
    "selectedSymbol (appStep (SettleFetch 0 (Fulfilled btcTicker) 1) switchedApp) = ''ETH/USDT''
     \<and> ticker (appStep (SettleFetch 0 (Fulfilled btcTicker) 1) switchedApp) = Some btcTicker
     \<and> requests (appStep (SettleFetch 0 (Fulfilled btcTicker) 1) switchedApp)
         = requests switchedApp @ [getOHLCV ''BTC/USDT'' ''1h'']"
    by (simp del: appStep.simps appRun.simps)
  moreover from b t2 have
    "taskSymbol (tasks (appRun
        [SymbolChange ''ETH/USDT'', TimeframeChange ''4h'',
         SettleFetch 0 (Fulfilled btcTicker) 1, SettleFetch 0 (Fulfilled (JArr [])) 2]
        mountedApp) ! 0) = ''BTC/USDT''
     \<and> taskTimeframe (tasks (appRun
        [SymbolChange ''ETH/USDT'', TimeframeChange ''4h'',
         SettleFetch 0 (Fulfilled btcTicker) 1, SettleFetch 0 (Fulfilled (JArr [])) 2]
        mountedApp) ! 0) = ''1h''"
    by (simp del: appStep.simps appRun.simps)
  ultimately show ?thesis using a(1,2,3) b(1) by blast
qed

subsection \<open>The three requests of fetchData\<close>

text \<open>
  C4 (as stated) fails: after mounting, with no response consumed, only the ticker
  request (beside the symbol list) has been issued; the OHLCV request follows the ticker
  response.
\<close>

theorem C4_sequential_counterexample:
  "requests mountedApp = [GetSymbols ''binance'', GetTicker ''BTC-USDT'' ''binance'']
   \<and> map taskAt (tasks mountedApp) = [AwaitTicker]
   \<and> requests (appStep (SettleFetch 0 (Fulfilled btcTicker) 1) mountedApp)
       = [GetSymbols ''binance'', GetTicker ''BTC-USDT'' ''binance'',
          GetOHLCV ''BTC-USDT'' ''1h'' ''binance'' 500]"
  unfolding mountedApp_eval
  by (simp add: app_defs api_defs Let_def)

text \<open>
  C4 (amended): on every trigger \<open>fetchData\<close> issues the ticker request only; the OHLCV
  request is issued when the ticker request has settled and the analysis request when
  the OHLCV request has settled, in both cases whether the earlier request succeeded or
  failed; the analysis response ends the run.
\<close>

theorem C4_sequential:
  "requests (fetchData sy tf s) = requests s @ [getTicker sy]
   \<and> taskAt (last (tasks (fetchData sy tf s))) = AwaitTicker
   \<and> (i < length (tasks s) \<and> taskAt (tasks s ! i) = AwaitTicker \<longrightarrow>
        requests (appStep (SettleFetch i out now) s)
          = requests s @ [getOHLCV (taskSymbol (tasks s ! i)) (taskTimeframe (tasks s ! i))]
        \<and> taskAt (tasks (appStep (SettleFetch i out now) s) ! i) = AwaitOHLCV)
   \<and> (i < length (tasks s) \<and> taskAt (tasks s ! i) = AwaitOHLCV \<longrightarrow>
        requests (appStep (SettleFetch i out now) s)
          = requests s @ [getFullAnalysis (taskSymbol (tasks s ! i))]
        \<and> taskAt (tasks (appStep (SettleFetch i out now) s) ! i) = AwaitAnalysis)
   \<and> (i < length (tasks s) \<and> taskAt (tasks s ! i) = AwaitAnalysis \<longrightarrow>
        requests (appStep (SettleFetch i out now) s) = requests s
        \<and> taskAt (tasks (appStep (SettleFetch i out now) s) ! i) = Finished)"
  by (cases out; cases "taskAt (tasks s ! i)")
     (simp_all add: fetchData_def fetchDataResume_def afterTicker_def afterOHLCV_def
        afterAnalysis_def Let_def)

theorem C4_sequential_witness:
  "0 < length (tasks mountedApp)
   \<and> taskAt (tasks mountedApp ! 0) = AwaitTicker
   \<and> requests (appStep (SettleFetch 0 (Rejected upstreamDown) 1) mountedApp)
       = requests mountedApp @ [getOHLCV ''BTC/USDT'' ''1h'']
   \<and> taskAt (tasks (appStep (SettleFetch 0 (Rejected upstreamDown) 1) mountedApp) ! 0) = AwaitOHLCV"
proof -
  have a: "0 < length (tasks mountedApp)" "taskAt (tasks mountedApp ! 0) = AwaitTicker"
    "taskSymbol (tasks mountedApp ! 0) = ''BTC/USDT''" "taskTimeframe (tasks mountedApp ! 0) = ''1h''"
    by (simp_all add: mountedApp_eval)
  from a C4_sequential [of "''BTC/USDT''" "''1h''" mountedApp 0 "Rejected upstreamDown" 1]
  show ?thesis by (simp del: appStep.simps)
qed

subsection \<open>The analysis error\<close>

text \<open>
  C3 (as stated) fails in its example: for a response with status 500 and body
  \<open>{"message":"upstream down"}\<close> the error shown is the message of the error object,
  \<open>Request failed with status code 500\<close>; the body is not read.
\<close>

theorem C3_analysis_error_counterexample:
  "response upstreamDown = Some (500, JObj [(''message'', JStr ''upstream down'')])
   \<and> taskAt (tasks analysisPending ! 0) = AwaitAnalysis
   \<and> error (appStep (SettleFetch 0 (Rejected upstreamDown) 3) analysisPending)
       = Some ''Request failed with status code 500''
   \<and> error (appStep (SettleFetch 0 (Rejected upstreamDown) 3) analysisPending)
       \<noteq> Some ''upstream down''"
  unfolding analysisPending_eval upstreamDown_eval
  by (simp add: app_defs errorMessage_def Let_def)

text \<open>
  C3 (amended): when the analysis request of a run fails, the error field is set to the
  caught error object's own message if it has a non-empty one, else to
  \<open>Failed to fetch analysis\<close>, and the analysis stays as it was; the response body plays
  no part. The next call of \<open>fetchData\<close> clears the error, and a successful analysis
  response stores the analysis and the time and leaves the error field alone.
\<close>

theorem C3_analysis_error:
  assumes "i < length (tasks s)" and "taskAt (tasks s ! i) = AwaitAnalysis"
  shows "error (appStep (SettleFetch i (Rejected err) now) s)
           = Some (case message err of
                     None \<Rightarrow> ''Failed to fetch analysis''
                   | Some m \<Rightarrow> if m = [] then ''Failed to fetch analysis'' else m)
       \<and> analysis (appStep (SettleFetch i (Rejected err) now) s) = analysis s
       \<and> error (fetchData sy tf s) = None
       \<and> error (appStep (SettleFetch i (Fulfilled d) now) s) = error s
       \<and> analysis (appStep (SettleFetch i (Fulfilled d) now) s) = Some d
       \<and> lastUpdate (appStep (SettleFetch i (Fulfilled d) now) s) = Some now"
  using assms
  by (simp add: fetchData_def fetchDataResume_def afterAnalysis_def errorMessage_def Let_def)

theorem C3_analysis_error_witness:
  "1 < length (tasks refreshedApp)
   \<and> taskAt (tasks refreshedApp ! 1) = AwaitAnalysis
   \<and> error (appStep (SettleFetch 0 (Rejected upstreamDown) 3) analysisPending)
       = Some ''Request failed with status code 500''
   \<and> error (appStep (SettleFetch 1 (Fulfilled (JObj [(''bias'', JStr ''Bullish'')])) 6) refreshedApp)
       = None
   \<and> analysis (appStep (SettleFetch 1 (Fulfilled (JObj [(''bias'', JStr ''Bullish'')])) 6) refreshedApp)
       = Some (JObj [(''bias'', JStr ''Bullish'')])"
proof -
  have a: "0 < length (tasks analysisPending)" "taskAt (tasks analysisPending ! 0) = AwaitAnalysis"
    by (simp_all add: analysisPending_eval)
  have b: "1 < length (tasks refreshedApp)" "taskAt (tasks refreshedApp ! 1) = AwaitAnalysis"
    "error refreshedApp = None"
    by (simp_all add: refreshedApp_eval)
  have m: "message upstreamDown = Some ''Request failed with status code 500''"
    by (simp add: upstreamDown_eval)
  from C3_analysis_error [OF a, of upstreamDown 3] m
  have "error (appStep (SettleFetch 0 (Rejected upstreamDown) 3) analysisPending)
          = Some ''Request failed with status code 500''"
    by (simp del: appStep.simps)
  with b C3_analysis_error [OF b(1,2), of _ 6 _ _ "JObj [(''bias'', JStr ''Bullish'')]"]
  show ?thesis by (simp del: appStep.simps)
qed

subsection \<open>The periodic refresh\<close>

text \<open>
  C9: in every state the mounted component can reach, exactly one interval is active,
  with period 5000 and the selected symbol. A tick issues one ticker request and changes
  nothing else; a successful response replaces the ticker and nothing else; a failed one
  leaves every view model field, so every loading flag and the error, as it was. On a
  change of symbol the cleanup leaves no interval before the new one is started.
\<close>

theorem C9_periodic_refresh:
  "oneInterval (appRun es initialApp)
   \<and> (find (\<lambda>iv. ivId iv = k) (intervals s) = Some iv \<longrightarrow>
        appStep (IntervalTick k) s
          = s\<lparr>requests := requests s @ [getTicker (ivSymbol iv)],
              polls := polls s @ [\<lparr>pollSymbol = ivSymbol iv, pollPending = True\<rparr>]\<rparr>)
   \<and> (j < length (polls s) \<and> pollPending (polls s ! j) \<longrightarrow>
        appStep (SettlePoll j (Fulfilled d)) s
          = s\<lparr>ticker := Some d, polls := (polls s)[j := (polls s ! j)\<lparr>pollPending := False\<rparr>]\<rparr>
        \<and> appStep (SettlePoll j (Rejected err)) s
          = s\<lparr>polls := (polls s)[j := (polls s ! j)\<lparr>pollPending := False\<rparr>]\<rparr>
        \<and> loading (appStep (SettlePoll j (Rejected err)) s) = loading s
        \<and> error (appStep (SettlePoll j (Rejected err)) s) = error s)
   \<and> (mounted s \<and> oneInterval s \<and> sy \<noteq> selectedSymbol s \<longrightarrow>
        intervals (refreshCleanup (s\<lparr>selectedSymbol := sy, analysis := None, ticker := None\<rparr>)) = []
        \<and> intervals (appStep (SymbolChange sy) s)
            = [\<lparr>ivId = nextInterval s, ivPeriod = 5000, ivSymbol = sy\<rparr>])"
proof -
  have "oneInterval (appRun es initialApp)"
    by (rule oneInterval_run) (rule oneInterval_initial)
  moreover have "appStep (IntervalTick k) s
          = s\<lparr>requests := requests s @ [getTicker (ivSymbol iv)],
              polls := polls s @ [\<lparr>pollSymbol = ivSymbol iv, pollPending = True\<rparr>]\<rparr>"
    if "find (\<lambda>iv. ivId iv = k) (intervals s) = Some iv"
    using that by (simp add: refreshTick_def)
  moreover have "appStep (SettlePoll j (Fulfilled d)) s
          = s\<lparr>ticker := Some d, polls := (polls s)[j := (polls s ! j)\<lparr>pollPending := False\<rparr>]\<rparr>
        \<and> appStep (SettlePoll j (Rejected err)) s
          = s\<lparr>polls := (polls s)[j := (polls s ! j)\<lparr>pollPending := False\<rparr>]\<rparr>
        \<and> loading (appStep (SettlePoll j (Rejected err)) s) = loading s
        \<and> error (appStep (SettlePoll j (Rejected err)) s) = error s"
    if "j < length (polls s) \<and> pollPending (polls s ! j)"
    using that by (simp add: refreshResume_def Let_def)
  moreover have "intervals (refreshCleanup (s\<lparr>selectedSymbol := sy, analysis := None, ticker := None\<rparr>)) = []
        \<and> intervals (appStep (SymbolChange sy) s)
            = [\<lparr>ivId = nextInterval s, ivPeriod = 5000, ivSymbol = sy\<rparr>]"
    if "mounted s \<and> oneInterval s \<and> sy \<noteq> selectedSymbol s"
    using that oneInterval_symbolChange(1,2) [of s sy] by simp
  ultimately show ?thesis by blast
qed

theorem C9_periodic_refresh_witness:
  "find (\<lambda>iv. ivId iv = 0) (intervals mountedApp)
     = Some \<lparr>ivId = 0, ivPeriod = 5000, ivSymbol = ''BTC/USDT''\<rparr>
   \<and> requests (appStep (IntervalTick 0) mountedApp)
       = requests mountedApp @ [GetTicker ''BTC-USDT'' ''binance'']
   \<and> 0 < length (polls polledApp) \<and> pollPending (polls polledApp ! 0)
   \<and> ticker (appStep (SettlePoll 0 (Fulfilled btcTicker)) polledApp) = Some btcTicker
   \<and> loading (appStep (SettlePoll 0 (Rejected upstreamDown)) polledApp) = loading polledApp
   \<and> error (appStep (SettlePoll 0 (Rejected upstreamDown)) polledApp) = error polledApp
   \<and> mounted mountedApp \<and> oneInterval mountedApp \<and> ''ETH/USDT'' \<noteq> selectedSymbol mountedApp
   \<and> intervals (appStep (SymbolChange ''ETH/USDT'') mountedApp)
       = [\<lparr>ivId = 1, ivPeriod = 5000, ivSymbol = ''ETH/USDT''\<rparr>]"
proof -
  have a: "find (\<lambda>iv. ivId iv = 0) (intervals mountedApp)
             = Some \<lparr>ivId = 0, ivPeriod = 5000, ivSymbol = ''BTC/USDT''\<rparr>"
    by (simp add: mountedApp_eval)
  have b: "0 < length (polls polledApp) \<and> pollPending (polls polledApp ! 0)"
    by (simp add: polledApp_eval)
  have c: "mounted mountedApp \<and> oneInterval mountedApp \<and> ''ETH/USDT'' \<noteq> selectedSymbol mountedApp"
    "nextInterval mountedApp = 1"
    by (simp_all add: mountedApp_eval oneInterval_def)
  have g: "getTicker ''BTC/USDT'' = GetTicker ''BTC-USDT'' ''binance''"
    by (simp add: api_defs)
  note t1 = C9_periodic_refresh [of "[]" 0 mountedApp "\<lparr>ivId = 0, ivPeriod = 5000, ivSymbol = ''BTC/USDT''\<rparr>"
      0 btcTicker upstreamDown "''ETH/USDT''"]
  note t2 = C9_periodic_refresh [of "[]" 0 polledApp "\<lparr>ivId = 0, ivPeriod = 5000, ivSymbol = ''BTC/USDT''\<rparr>"
      0 btcTicker upstreamDown "''ETH/USDT''"]
  from a c g t1 have
    "requests (appStep (IntervalTick 0) mountedApp)
       = requests mountedApp @ [GetTicker ''BTC-USDT'' ''binance'']
     \<and> intervals (appStep (SymbolChange ''ETH/USDT'') mountedApp)
       = [\<lparr>ivId = 1, ivPeriod = 5000, ivSymbol = ''ETH/USDT''\<rparr>]"
    by (simp del: appStep.simps)
  moreover from b t2 have
    "ticker (appStep (SettlePoll 0 (Fulfilled btcTicker)) polledApp) = Some btcTicker
     \<and> loading (appStep (SettlePoll 0 (Rejected upstreamDown)) polledApp) = loading polledApp
     \<and> error (appStep (SettlePoll 0 (Rejected upstreamDown)) polledApp) = error polledApp"
    by (simp del: appStep.simps)
  ultimately show ?thesis using a b c(1) by blast
qed

end
